theory Spec2Isabelle
  imports Complex_Main "HOL-Library.AList"
begin

section \<open>Values shared by all classes\<close>

text \<open>
  The program is one Python module, \<^verbatim>\<open>hhh.py\<close>: a ticket hierarchy, users and
  admins, orders, and a \<^verbatim>\<open>BookingSystem\<close> that keeps four dictionaries and pickles
  them. Python objects are mutable and shared, so objects live in a heap and lists and
  dictionaries hold references. A reference is an address.

  Prices are Python floats. They are modelled as exact reals: the rounding of binary
  floating point (and NaN) is outside this development.

  Every \<^verbatim>\<open>raise ValueError(msg)\<close> of the source is the value \<open>ValueError msg\<close>.
  \<open>OSError\<close> stands for a failing \<^verbatim>\<open>open\<close>, and \<open>AttributeError\<close> for a method
  called on an object of a class that does not define it.
\<close>

type_synonym ref = nat

datatype error = ValueError string | OSError string | AttributeError string

datatype RaceCategory = PREMIUM | STANDARD | ECONOMY

datatype OrderStatus = PENDING | CONFIRMED | CANCELLED

datatype PaymentMethod = CREDIT_CARD | DEBIT_CARD | DIGITAL_WALLET

text \<open>\<^verbatim>\<open>datetime.date\<close>: a calendar day, compared as (year, month, day).\<close>

datatype date = Date (year: int) (month: nat) (day: nat)

fun date_less :: "date \<Rightarrow> date \<Rightarrow> bool" where
  "date_less (Date y1 m1 d1) (Date y2 m2 d2) =
     (y1 < y2 \<or> (y1 = y2 \<and> (m1 < m2 \<or> (m1 = m2 \<and> d1 < d2))))"

section \<open>Tickets\<close>

text \<open>
  The parameter \<^verbatim>\<open>race_category\<close> of \<^verbatim>\<open>SingleRaceTicket.__init__\<close> is annotated
  \<^verbatim>\<open>RaceCategory\<close>, but Python does not enforce annotations, and
  \<^verbatim>\<open>Admin.create_ticket\<close> passes on whatever its keyword arguments hold. The slot
  therefore holds either a member of the enum or some other object, which is identified
  here by a string (for instance the text \<^verbatim>\<open>"Premium"\<close>, which is not the enum member).
\<close>

datatype category_value = Member RaceCategory | NonMember string

text \<open>The attributes the two subclasses add to \<^verbatim>\<open>Ticket\<close>.\<close>

datatype ticket_variant =
    SingleRaceTicket (race_name: string) (race_category: category_value)
  | SeasonTicket (season_year: int) (included_races: "string list") (race_dates: "date list")

record Ticket =
  ticket_id :: string
  price :: real
  event_date :: date
  venue_section :: string
  is_used :: bool
  created_by :: "ref option"
  variant :: ticket_variant

text \<open>
  \<^verbatim>\<open>Ticket.__init__\<close> assigns its four arguments, sets the used flag to False and the
  creator to None. It has no \<^verbatim>\<open>raise\<close>. The constructors return a result so that
  "construction fails" can be stated at all.
\<close>

definition Ticket_init :: "string \<Rightarrow> real \<Rightarrow> date \<Rightarrow> string \<Rightarrow> ticket_variant \<Rightarrow> Ticket" where
  "Ticket_init tid p d sec v =
     \<lparr>ticket_id = tid, price = p, event_date = d, venue_section = sec,
      is_used = False, created_by = None, variant = v\<rparr>"

definition SingleRaceTicket_init ::
  "string \<Rightarrow> real \<Rightarrow> date \<Rightarrow> string \<Rightarrow> string \<Rightarrow> category_value \<Rightarrow> error + Ticket" where
  "SingleRaceTicket_init tid p d sec rname rcat =
     Inr (Ticket_init tid p d sec (SingleRaceTicket rname rcat))"

text \<open>\<^verbatim>\<open>race_dates if race_dates else []\<close>: None and the empty list both give [].\<close>

definition SeasonTicket_init ::
  "string \<Rightarrow> real \<Rightarrow> date \<Rightarrow> string \<Rightarrow> int \<Rightarrow> string list \<Rightarrow> date list option \<Rightarrow> error + Ticket" where
  "SeasonTicket_init tid p d sec yr races dates =
     Inr (Ticket_init tid p d sec
       (SeasonTicket yr races (case dates of None \<Rightarrow> [] | Some ds \<Rightarrow> ds)))"

definition set_price :: "Ticket \<Rightarrow> real \<Rightarrow> error + Ticket" where
  "set_price t p =
     (if p < 0 then Inl (ValueError ''Price cannot be negative'')
      else Inr (t\<lparr>price := p\<rparr>))"


definition set_used :: "Ticket \<Rightarrow> bool \<Rightarrow> Ticket" where
  "set_used t b = t\<lparr>is_used := b\<rparr>"

definition set_created_by :: "Ticket \<Rightarrow> ref \<Rightarrow> Ticket" where
  "set_created_by t a = t\<lparr>created_by := Some a\<rparr>"

text \<open>\<^verbatim>\<open>set_included_races\<close> exists on \<^verbatim>\<open>SeasonTicket\<close> only.\<close>

definition set_included_races :: "Ticket \<Rightarrow> string list \<Rightarrow> error + Ticket" where
  "set_included_races t races =
     (case variant t of
        SeasonTicket yr old dates \<Rightarrow> Inr (t\<lparr>variant := SeasonTicket yr races dates\<rparr>)
      | SingleRaceTicket rname rcat \<Rightarrow> Inl (AttributeError ''set_included_races''))"

text \<open>
  \<^verbatim>\<open>calculate_price\<close>, dispatched on the class. For a single race the last branch is an
  \<^verbatim>\<open>else\<close>: it takes every category that is neither PREMIUM nor STANDARD.
\<close>

definition calculate_price :: "Ticket \<Rightarrow> real" where
  "calculate_price t =
     (case variant t of
        SingleRaceTicket rname rcat \<Rightarrow>
          (if rcat = Member PREMIUM then price t * (12 / 10)
           else if rcat = Member STANDARD then price t
           else price t * (9 / 10))
      | SeasonTicket yr races dates \<Rightarrow>
          (let num_races = length races in
           if num_races \<ge> 15 then price t * (7 / 10)
           else if num_races \<ge> 10 then price t * (8 / 10)
           else if num_races \<ge> 5 then price t * (9 / 10)
           else price t))"

section \<open>Orders\<close>

text \<open>
  An order holds references to its tickets: the same ticket objects are registered in the
  booking system and may be changed through any other reference. Methods that read the
  tickets take the ticket store, the map from references to ticket objects.
\<close>

record Order =
  order_id :: string
  order_date :: date
  status :: OrderStatus
  total_amount :: real
  payment_method :: "PaymentMethod option"
  tickets :: "ref list"
  order_user_id :: "string option"

text \<open>
  \<^verbatim>\<open>Order.__init__(order_id, order_date, status=PENDING, total_amount=0.0,
  payment_method=None)\<close>. The only call of the program, in \<^verbatim>\<open>create_order\<close>, passes the
  first two arguments: that is \<open>Order_new\<close>.
\<close>

definition Order_init ::
  "string \<Rightarrow> date \<Rightarrow> OrderStatus \<Rightarrow> real \<Rightarrow> PaymentMethod option \<Rightarrow> Order" where
  "Order_init oid d st amount pm =
     \<lparr>order_id = oid, order_date = d, status = st, total_amount = amount,
      payment_method = pm, tickets = [], order_user_id = None\<rparr>"

definition Order_new :: "string \<Rightarrow> date \<Rightarrow> Order" where
  "Order_new oid d = Order_init oid d PENDING 0 None"






definition Order_set_user_id :: "Order \<Rightarrow> string \<Rightarrow> Order" where
  "Order_set_user_id ord uid = ord\<lparr>order_user_id := Some uid\<rparr>"

text \<open>
  \<^verbatim>\<open>sum(ticket.calculate_price() for ticket in self.__tickets)\<close>: from 0, left to right.
  The sum is over exact reals, where the program adds floats; the general properties
  proved of it use no law of addition, only the order in which the sum is built.
\<close>

definition calculate_total :: "(ref \<Rightarrow> Ticket) \<Rightarrow> Order \<Rightarrow> real" where
  "calculate_total ts ord = foldl (+) 0 (map (\<lambda>r. calculate_price (ts r)) (tickets ord))"

definition add_ticket :: "(ref \<Rightarrow> Ticket) \<Rightarrow> Order \<Rightarrow> ref \<Rightarrow> error + Order" where
  "add_ticket ts ord t =
     (if status ord = CONFIRMED
      then Inl (ValueError ''Cannot add tickets to a confirmed order'')
      else let ord1 = ord\<lparr>tickets := tickets ord @ [t]\<rparr>
           in Inr (ord1\<lparr>total_amount := calculate_total ts ord1\<rparr>))"

text \<open>
  The loop of \<^verbatim>\<open>remove_ticket\<close>: the list without the first ticket whose id is the one
  asked for, or None when the loop ends without a match.
\<close>

fun pop_first :: "(ref \<Rightarrow> Ticket) \<Rightarrow> string \<Rightarrow> ref list \<Rightarrow> ref list option" where
  "pop_first ts tid [] = None"
| "pop_first ts tid (r # rs) =
     (if ticket_id (ts r) = tid then Some rs
      else (case pop_first ts tid rs of None \<Rightarrow> None | Some rs' \<Rightarrow> Some (r # rs')))"

definition remove_ticket :: "(ref \<Rightarrow> Ticket) \<Rightarrow> Order \<Rightarrow> string \<Rightarrow> bool \<times> Order" where
  "remove_ticket ts ord tid =
     (if status ord = CONFIRMED then (False, ord)
      else (case pop_first ts tid (tickets ord) of
              Some rs \<Rightarrow>
                (let ord1 = ord\<lparr>tickets := rs\<rparr>
                 in (True, ord1\<lparr>total_amount := calculate_total ts ord1\<rparr>))
            | None \<Rightarrow> (False, ord)))"

text \<open>
  \<^verbatim>\<open>not self.__payment_method\<close>: the members of a plain \<^verbatim>\<open>Enum\<close> are all true, so the
  test is for None.
\<close>

definition confirm_order :: "Order \<Rightarrow> bool \<times> Order" where
  "confirm_order ord =
     (if tickets ord = [] then (False, ord)
      else if payment_method ord = None then (False, ord)
      else (True, ord\<lparr>status := CONFIRMED\<rparr>))"

text \<open>\<^verbatim>\<open>date.today()\<close> is the argument \<open>today\<close>.\<close>

definition cancel_order :: "(ref \<Rightarrow> Ticket) \<Rightarrow> date \<Rightarrow> Order \<Rightarrow> bool \<times> Order" where
  "cancel_order ts today ord =
     (if list_ex (\<lambda>r. is_used (ts r)) (tickets ord) then (False, ord)
      else if list_ex (\<lambda>r. date_less (event_date (ts r)) today) (tickets ord) then (False, ord)
      else (True, ord\<lparr>status := CANCELLED\<rparr>))"

text \<open>
  A caller's sequence of \<^verbatim>\<open>add_ticket\<close> and \<^verbatim>\<open>remove_ticket\<close> calls on one order. A
  call of \<^verbatim>\<open>add_ticket\<close> that raises has not touched the order.
\<close>

datatype order_call = AddTicket ref | RemoveTicket string

fun call :: "(ref \<Rightarrow> Ticket) \<Rightarrow> Order \<Rightarrow> order_call \<Rightarrow> Order" where
  "call ts ord (AddTicket t) = (case add_ticket ts ord t of Inl e \<Rightarrow> ord | Inr ord' \<Rightarrow> ord')"
| "call ts ord (RemoveTicket tid) = snd (remove_ticket ts ord tid)"

definition calls :: "(ref \<Rightarrow> Ticket) \<Rightarrow> Order \<Rightarrow> order_call list \<Rightarrow> Order" where
  "calls ts ord cs = foldl (call ts) ord cs"

section \<open>Users and admins\<close>

text \<open>\<^verbatim>\<open>Admin\<close> extends \<^verbatim>\<open>User\<close> by a level and a department.\<close>

datatype account_variant = PlainUser | Admin (admin_level: int) (department: string)

record User =
  user_id :: string
  username :: string
  password :: string
  email :: string
  phone_number :: "string option"
  orders :: "ref list"
  account :: account_variant

text \<open>
  \<^verbatim>\<open>User.__init__\<close> and \<^verbatim>\<open>Admin.__init__\<close> assign their arguments and start with an
  empty order list. Neither has a \<^verbatim>\<open>raise\<close>.
\<close>

definition User_init ::
  "string \<Rightarrow> string \<Rightarrow> string \<Rightarrow> string \<Rightarrow> string option \<Rightarrow> error + User" where
  "User_init uid uname pw em phone =
     Inr \<lparr>user_id = uid, username = uname, password = pw, email = em,
          phone_number = phone, orders = [], account = PlainUser\<rparr>"

definition Admin_init ::
  "string \<Rightarrow> string \<Rightarrow> string \<Rightarrow> string \<Rightarrow> int \<Rightarrow> string \<Rightarrow> string option \<Rightarrow> error + User" where
  "Admin_init uid uname pw em level dept phone =
     (case User_init uid uname pw em phone of
        Inl e \<Rightarrow> Inl e
      | Inr u \<Rightarrow> Inr (u\<lparr>account := Admin level dept\<rparr>))"

definition set_password :: "User \<Rightarrow> string \<Rightarrow> error + User" where
  "set_password u pw =
     (if length pw < 6 then Inl (ValueError ''Password must be at least 6 characters long'')
      else Inr (u\<lparr>password := pw\<rparr>))"

definition set_email :: "User \<Rightarrow> string \<Rightarrow> error + User" where
  "set_email u em =
     (if CHR ''@'' \<notin> set em then Inl (ValueError ''Invalid email format'')
      else Inr (u\<lparr>email := em\<rparr>))"

definition add_order :: "User \<Rightarrow> ref \<Rightarrow> User" where
  "add_order u r = u\<lparr>orders := orders u @ [r]\<rparr>"

definition verify_password :: "User \<Rightarrow> string \<Rightarrow> bool" where
  "verify_password u pw = (password u = pw)"

section \<open>The heap\<close>

text \<open>
  One store for each class. Addresses below \<open>next_ref\<close> are in use; what a store holds
  at any other address is never read.
\<close>

record heap =
  ticket_objs :: "ref \<Rightarrow> Ticket"
  order_objs :: "ref \<Rightarrow> Order"
  user_objs :: "ref \<Rightarrow> User"
  next_ref :: ref

definition new_user :: "heap \<Rightarrow> User \<Rightarrow> ref \<times> heap" where
  "new_user h u =
     (next_ref h, h\<lparr>user_objs := (user_objs h)(next_ref h := u), next_ref := Suc (next_ref h)\<rparr>)"

definition new_order :: "heap \<Rightarrow> Order \<Rightarrow> ref \<times> heap" where
  "new_order h ord =
     (next_ref h, h\<lparr>order_objs := (order_objs h)(next_ref h := ord), next_ref := Suc (next_ref h)\<rparr>)"

definition new_ticket :: "heap \<Rightarrow> Ticket \<Rightarrow> ref \<times> heap" where
  "new_ticket h t =
     (next_ref h, h\<lparr>ticket_objs := (ticket_objs h)(next_ref h := t), next_ref := Suc (next_ref h)\<rparr>)"

text \<open>
  A method call on the ticket object at an address. A setter that raises leaves the heap
  as it was.
\<close>

definition Ticket_set_price :: "heap \<Rightarrow> ref \<Rightarrow> real \<Rightarrow> error option \<times> heap" where
  "Ticket_set_price h r p =
     (case set_price (ticket_objs h r) p of
        Inl e \<Rightarrow> (Some e, h)
      | Inr t \<Rightarrow> (None, h\<lparr>ticket_objs := (ticket_objs h)(r := t)\<rparr>))"






text \<open>
  \<^verbatim>\<open>Admin.create_ticket(ticket_type, ticket_id, price, event_date, venue_section,
  **kwargs)\<close>, called on the admin object at an address. The keyword arguments the method
  reads are the fields of \<open>ticket_kwargs\<close>, None for one that is not passed.
  \<^verbatim>\<open>not race_name\<close> holds for a missing and for an empty name.
\<close>

record ticket_kwargs =
  kw_race_name :: "string option"
  kw_race_category :: "category_value option"
  kw_season_year :: "int option"
  kw_included_races :: "string list option"
  kw_race_dates :: "date list option"

definition create_ticket ::
  "heap \<Rightarrow> ref \<Rightarrow> string \<Rightarrow> string \<Rightarrow> real \<Rightarrow> date \<Rightarrow> string \<Rightarrow> ticket_kwargs
     \<Rightarrow> error + (ref \<times> heap)" where
  "create_ticket h admin ticket_type tid p d sec kw =
     (case (if ticket_type = ''SingleRace''
            then (let rname = (case kw_race_name kw of None \<Rightarrow> [] | Some n \<Rightarrow> n) in
                  if rname = []
                  then Inl (ValueError ''Race name is required for SingleRaceTicket'')
                  else SingleRaceTicket_init tid p d sec rname
                         (case kw_race_category kw of None \<Rightarrow> Member STANDARD | Some c \<Rightarrow> c))
            else if ticket_type = ''Season''
            then SeasonTicket_init tid p d sec
                   (case kw_season_year kw of None \<Rightarrow> year d | Some y \<Rightarrow> y)
                   (case kw_included_races kw of None \<Rightarrow> [] | Some rs \<Rightarrow> rs)
                   (Some (case kw_race_dates kw of None \<Rightarrow> [] | Some ds \<Rightarrow> ds))
            else Inl (ValueError (''Invalid ticket type: '' @ ticket_type))) of
        Inl e \<Rightarrow> Inl e
      | Inr t \<Rightarrow> Inr (new_ticket h (set_created_by t admin)))"

section \<open>Decimal text of a number\<close>

text \<open>The f-strings of the source print \<^verbatim>\<open>len(...)\<close> and \<^verbatim>\<open>len(...) + 1\<close> in decimal.\<close>

definition digit_char :: "nat \<Rightarrow> char" where
  "digit_char d = ''0123456789'' ! d"

function str_nat :: "nat \<Rightarrow> string" where
  "str_nat n = (if n < 10 then [digit_char n] else str_nat (n div 10) @ [digit_char (n mod 10)])"
  by pat_completeness auto
termination
  by (relation "measure id") auto

declare str_nat.simps [simp del]

section \<open>The booking system and its pickle files\<close>

text \<open>
  \<^verbatim>\<open>pickle.dump\<close> writes the dictionary together with every object that can be reached
  from it; \<^verbatim>\<open>pickle.load\<close> builds new objects with the same attribute values, in which
  a reference leads to the new copy of the object it led to. A pickle file is therefore a
  dictionary of addresses and the heap these addresses are read in (the whole heap at the
  time of the dump: what cannot be reached from the dictionary is never looked at).
  Loading copies that heap behind the last address in use, every address in it moved up
  by the same offset.
\<close>

record pickle_file =
  pickled_dict :: "(string \<times> ref) list"
  pickled_objs :: heap

definition shift_ticket :: "nat \<Rightarrow> Ticket \<Rightarrow> Ticket" where
  "shift_ticket k t = t\<lparr>created_by := map_option (\<lambda>r. r + k) (created_by t)\<rparr>"

definition shift_order :: "nat \<Rightarrow> Order \<Rightarrow> Order" where
  "shift_order k ord = ord\<lparr>tickets := map (\<lambda>r. r + k) (tickets ord)\<rparr>"

definition shift_user :: "nat \<Rightarrow> User \<Rightarrow> User" where
  "shift_user k u = u\<lparr>orders := map (\<lambda>r. r + k) (orders u)\<rparr>"

definition shift_dict :: "nat \<Rightarrow> (string \<times> ref) list \<Rightarrow> (string \<times> ref) list" where
  "shift_dict k d = map (\<lambda>(key, r). (key, r + k)) d"

definition graft :: "heap \<Rightarrow> heap \<Rightarrow> heap" where
  "graft h g =
     \<lparr>ticket_objs = (\<lambda>r. if r < next_ref h then ticket_objs h r
                         else shift_ticket (next_ref h) (ticket_objs g (r - next_ref h))),
      order_objs = (\<lambda>r. if r < next_ref h then order_objs h r
                        else shift_order (next_ref h) (order_objs g (r - next_ref h))),
      user_objs = (\<lambda>r. if r < next_ref h then user_objs h r
                       else shift_user (next_ref h) (user_objs g (r - next_ref h))),
      next_ref = next_ref h + next_ref g\<rparr>"

definition pickle_load :: "pickle_file \<Rightarrow> heap \<Rightarrow> (string \<times> ref) list \<times> heap" where
  "pickle_load pf h = (shift_dict (next_ref h) (pickled_dict pf), graft h (pickled_objs pf))"

text \<open>
  The four dictionaries of a \<^verbatim>\<open>BookingSystem\<close> are association lists in insertion
  order, as Python keeps them: \<^verbatim>\<open>d[k] = v\<close> is \<open>AList.update\<close>, \<^verbatim>\<open>k in d\<close> and
  \<^verbatim>\<open>d.get(k)\<close> are \<open>map_of\<close>, \<^verbatim>\<open>len(d)\<close> is the length. With the object come the parts
  of the world its methods touch: the heap, the files of the data directory, the paths
  on which \<^verbatim>\<open>open\<close> raises, and the lines written to the log (without their time stamp).
\<close>

record BookingSystem =
  sys_name :: string
  sys_version :: string
  database :: "string option"
  sys_users :: "(string \<times> ref) list"
  sys_admins :: "(string \<times> ref) list"
  sys_tickets :: "(string \<times> ref) list"
  sys_orders :: "(string \<times> ref) list"
  objs :: heap
  files :: "string \<rightharpoonup> pickle_file"
  failing :: "string \<Rightarrow> bool"
  log_lines :: "string list"

definition write_log :: "BookingSystem \<Rightarrow> string \<Rightarrow> BookingSystem" where
  "write_log s message = s\<lparr>log_lines := log_lines s @ [message]\<rparr>"

text \<open>\<^verbatim>\<open>str(e)\<close> in a log line. For an \<open>OSError\<close> the model keeps the path only, not the
  text of the operating system.\<close>

definition error_text :: "error \<Rightarrow> string" where
  "error_text e = (case e of ValueError m \<Rightarrow> m | OSError m \<Rightarrow> m | AttributeError m \<Rightarrow> m)"

text \<open>
  \<^verbatim>\<open>with open(path, 'wb') as f: pickle.dump(d, f)\<close>. The failure modelled is that of
  \<^verbatim>\<open>open\<close>; a \<^verbatim>\<open>pickle.dump\<close> that raises after the file was opened makes
  \<^verbatim>\<open>save_data\<close> return False as well and is not modelled apart.
\<close>

definition dump_to :: "string \<Rightarrow> (string \<times> ref) list \<Rightarrow> BookingSystem \<Rightarrow> error + BookingSystem" where
  "dump_to path d s =
     (if failing s path then Inl (OSError path)
      else Inr (s\<lparr>files := (files s)(path \<mapsto> \<lparr>pickled_dict = d, pickled_objs = objs s\<rparr>)\<rparr>))"

definition save_data :: "BookingSystem \<Rightarrow> bool \<times> BookingSystem" where
  "save_data s =
     (case dump_to ''data/users.pkl'' (sys_users s) s of
        Inl e \<Rightarrow> (False, write_log s (''Error saving data: '' @ error_text e))
      | Inr s1 \<Rightarrow>
     (case dump_to ''data/admins.pkl'' (sys_admins s1) s1 of
        Inl e \<Rightarrow> (False, write_log s1 (''Error saving data: '' @ error_text e))
      | Inr s2 \<Rightarrow>
     (case dump_to ''data/tickets.pkl'' (sys_tickets s2) s2 of
        Inl e \<Rightarrow> (False, write_log s2 (''Error saving data: '' @ error_text e))
      | Inr s3 \<Rightarrow>
     (case dump_to ''data/orders.pkl'' (sys_orders s3) s3 of
        Inl e \<Rightarrow> (False, write_log s3 (''Error saving data: '' @ error_text e))
      | Inr s4 \<Rightarrow> (True, write_log s4 ''All data saved successfully'')))))"

definition create_user ::
  "BookingSystem \<Rightarrow> string \<Rightarrow> string \<Rightarrow> string \<Rightarrow> string \<Rightarrow> string option
     \<Rightarrow> error + (ref \<times> BookingSystem)" where
  "create_user s uid uname pw em phone =
     (if map_of (sys_users s) uname \<noteq> None
      then Inl (ValueError (''Username '' @ [CHR 0x27] @ uname @ [CHR 0x27] @ '' already exists''))
      else (case User_init uid uname pw em phone of
              Inl e \<Rightarrow> Inl e
            | Inr u \<Rightarrow>
                (let (r, h) = new_user (objs s) u;
                     s1 = s\<lparr>objs := h, sys_users := AList.update uname r (sys_users s)\<rparr>;
                     s2 = write_log s1 (''Created user: '' @ uname)
                 in Inr (r, snd (save_data s2)))))"

definition create_admin ::
  "BookingSystem \<Rightarrow> string \<Rightarrow> string \<Rightarrow> string \<Rightarrow> string \<Rightarrow> int \<Rightarrow> string \<Rightarrow> string option
     \<Rightarrow> error + (ref \<times> BookingSystem)" where
  "create_admin s uid uname pw em level dept phone =
     (if map_of (sys_users s) uname \<noteq> None
      then Inl (ValueError (''Username '' @ [CHR 0x27] @ uname @ [CHR 0x27] @ '' already exists''))
      else (case Admin_init uid uname pw em level dept phone of
              Inl e \<Rightarrow> Inl e
            | Inr a \<Rightarrow>
                (let (r, h) = new_user (objs s) a;
                     s1 = s\<lparr>objs := h, sys_users := AList.update uname r (sys_users s)\<rparr>;
                     s2 = s1\<lparr>sys_admins := AList.update uname r (sys_admins s1)\<rparr>;
                     s3 = write_log s2 (''Created admin: '' @ uname)
                 in Inr (r, snd (save_data s3)))))"

text \<open>
  \<^verbatim>\<open>with open(path, 'rb') as f: pickle.load(f)\<close>, for a file that exists. The objects
  it builds are new ones.
\<close>

definition read_pickle ::
  "string \<Rightarrow> pickle_file \<Rightarrow> BookingSystem \<Rightarrow> error + ((string \<times> ref) list \<times> BookingSystem)" where
  "read_pickle path pf s =
     (if failing s path then Inl (OSError path)
      else (let (d, h) = pickle_load pf (objs s) in Inr (d, s\<lparr>objs := h\<rparr>)))"

text \<open>
  The four parts of the \<^verbatim>\<open>try\<close> block of \<^verbatim>\<open>load_data\<close>. \<^verbatim>\<open>os.path.exists(path)\<close> is
  \<open>files s path \<noteq> None\<close>. When no admin file exists and the admin dictionary is empty,
  the default admin is created, which saves all four dictionaries as they are then.
\<close>

definition load_users :: "BookingSystem \<Rightarrow> error + BookingSystem" where
  "load_users s =
     (case files s ''data/users.pkl'' of
        None \<Rightarrow> Inr s
      | Some pf \<Rightarrow>
          (case read_pickle ''data/users.pkl'' pf s of
             Inl e \<Rightarrow> Inl e
           | Inr (d, s1) \<Rightarrow>
               Inr (write_log (s1\<lparr>sys_users := d\<rparr>) (''Loaded '' @ str_nat (length d) @ '' users''))))"

definition load_admins :: "BookingSystem \<Rightarrow> error + BookingSystem" where
  "load_admins s =
     (case files s ''data/admins.pkl'' of
        Some pf \<Rightarrow>
          (case read_pickle ''data/admins.pkl'' pf s of
             Inl e \<Rightarrow> Inl e
           | Inr (d, s1) \<Rightarrow>
               Inr (write_log (s1\<lparr>sys_admins := d\<rparr>) (''Loaded '' @ str_nat (length d) @ '' admins'')))
      | None \<Rightarrow>
          (if sys_admins s = []
           then (case create_admin s ''ADM-001'' ''admin'' ''admin123'' ''admin@grandprix.com'' 3
                        ''System Administration'' None of
                   Inl e \<Rightarrow> Inl e
                 | Inr (r, s1) \<Rightarrow> Inr (write_log s1 ''Created default admin account''))
           else Inr s))"

definition load_tickets :: "BookingSystem \<Rightarrow> error + BookingSystem" where
  "load_tickets s =
     (case files s ''data/tickets.pkl'' of
        None \<Rightarrow> Inr s
      | Some pf \<Rightarrow>
          (case read_pickle ''data/tickets.pkl'' pf s of
             Inl e \<Rightarrow> Inl e
           | Inr (d, s1) \<Rightarrow>
               Inr (write_log (s1\<lparr>sys_tickets := d\<rparr>) (''Loaded '' @ str_nat (length d) @ '' tickets''))))"

definition load_orders :: "BookingSystem \<Rightarrow> error + BookingSystem" where
  "load_orders s =
     (case files s ''data/orders.pkl'' of
        None \<Rightarrow> Inr s
      | Some pf \<Rightarrow>
          (case read_pickle ''data/orders.pkl'' pf s of
             Inl e \<Rightarrow> Inl e
           | Inr (d, s1) \<Rightarrow>
               Inr (write_log (s1\<lparr>sys_orders := d\<rparr>) (''Loaded '' @ str_nat (length d) @ '' orders''))))"

text \<open>An exception leaves the \<^verbatim>\<open>try\<close> block with everything done before it in place.\<close>

definition load_data :: "BookingSystem \<Rightarrow> bool \<times> BookingSystem" where
  "load_data s =
     (case load_users s of
        Inl e \<Rightarrow> (False, write_log s (''Error loading data: '' @ error_text e))
      | Inr s1 \<Rightarrow>
     (case load_admins s1 of
        Inl e \<Rightarrow> (False, write_log s1 (''Error loading data: '' @ error_text e))
      | Inr s2 \<Rightarrow>
     (case load_tickets s2 of
        Inl e \<Rightarrow> (False, write_log s2 (''Error loading data: '' @ error_text e))
      | Inr s3 \<Rightarrow>
     (case load_orders s3 of
        Inl e \<Rightarrow> (False, write_log s3 (''Error loading data: '' @ error_text e))
      | Inr s4 \<Rightarrow> (True, s4)))))"

text \<open>
  \<^verbatim>\<open>BookingSystem.__init__\<close>: four empty dictionaries, then \<^verbatim>\<open>load_data\<close>. The heap,
  the files and the failing paths are those of the process that runs it.
\<close>

definition BookingSystem_init ::
  "string \<Rightarrow> string \<Rightarrow> heap \<Rightarrow> (string \<rightharpoonup> pickle_file) \<Rightarrow> (string \<Rightarrow> bool) \<Rightarrow> BookingSystem" where
  "BookingSystem_init nm ver h fs bad =
     snd (load_data
       \<lparr>sys_name = nm, sys_version = ver, database = None,
        sys_users = [], sys_admins = [], sys_tickets = [], sys_orders = [],
        objs = h, files = fs, failing = bad, log_lines = []\<rparr>)"

definition get_user :: "BookingSystem \<Rightarrow> string \<Rightarrow> ref option" where
  "get_user s uname = map_of (sys_users s) uname"

definition get_order :: "BookingSystem \<Rightarrow> string \<Rightarrow> ref option" where
  "get_order s oid = map_of (sys_orders s) oid"

definition register_ticket :: "BookingSystem \<Rightarrow> ref \<Rightarrow> error + BookingSystem" where
  "register_ticket s t =
     (let tid = ticket_id (ticket_objs (objs s) t) in
      if map_of (sys_tickets s) tid \<noteq> None
      then Inl (ValueError (''Ticket ID '' @ [CHR 0x27] @ tid @ [CHR 0x27] @ '' already exists''))
      else (let s1 = s\<lparr>sys_tickets := AList.update tid t (sys_tickets s)\<rparr>;
                s2 = write_log s1 (''Registered ticket: '' @ tid)
            in Inr (snd (save_data s2))))"

text \<open>
  \<^verbatim>\<open>create_order(user)\<close>: the argument is the address of a user object, \<open>today\<close> is
  \<^verbatim>\<open>date.today()\<close>. The result is the address of the new order.
\<close>

definition create_order :: "BookingSystem \<Rightarrow> ref \<Rightarrow> date \<Rightarrow> ref \<times> BookingSystem" where
  "create_order s u today =
     (let oid = ''ORD-'' @ str_nat (length (sys_orders s) + 1);
          (r, h1) = new_order (objs s) (Order_new oid today);
          h2 = h1\<lparr>order_objs := (order_objs h1)
                  (r := Order_set_user_id (order_objs h1 r) (username (user_objs h1 u)))\<rparr>;
          s1 = s\<lparr>objs := h2, sys_orders := AList.update oid r (sys_orders s)\<rparr>;
          h3 = (objs s1)\<lparr>user_objs := (user_objs (objs s1))(u := add_order (user_objs (objs s1) u) r)\<rparr>;
          s2 = write_log (s1\<lparr>objs := h3\<rparr>)
                 (''Created order: '' @ oid @ '' for user: '' @ username (user_objs h3 u))
      in (r, snd (save_data s2)))"

text \<open>
  A caller's successive \<^verbatim>\<open>create_order\<close> calls, one for each user of a list, with the
  ids of the orders they return.
\<close>

fun create_orders :: "BookingSystem \<Rightarrow> ref list \<Rightarrow> date \<Rightarrow> string list \<times> BookingSystem" where
  "create_orders s [] today = ([], s)"
| "create_orders s (u # us) today =
     (case create_order s u today of
        (r, s1) \<Rightarrow>
          (case create_orders s1 us today of
             (ids, s2) \<Rightarrow> (order_id (order_objs (objs s1) r) # ids, s2)))"

definition update_order :: "BookingSystem \<Rightarrow> ref \<Rightarrow> error + BookingSystem" where
  "update_order s a =
     (let oid = order_id (order_objs (objs s) a) in
      if map_of (sys_orders s) oid = None
      then Inl (ValueError (''Order '' @ [CHR 0x27] @ oid @ [CHR 0x27] @ '' does not exist''))
      else (let s1 = s\<lparr>sys_orders := AList.update oid a (sys_orders s)\<rparr>;
                s2 = write_log s1 (''Updated order: '' @ oid)
            in Inr (snd (save_data s2))))"

text \<open>
  The order ids that \<^verbatim>\<open>create_order\<close> has issued so far when it alone has filled the
  order dictionary: \<^verbatim>\<open>ORD-1\<close> up to \<^verbatim>\<open>ORD-n\<close>, in this order.
\<close>

definition sequential_ids :: "(string \<times> ref) list \<Rightarrow> bool" where
  "sequential_ids d = (map fst d = map (\<lambda>i. ''ORD-'' @ str_nat i) [1..<Suc (length d)])"

text \<open>Every address a dictionary of the system holds is in use.\<close>

definition allocated :: "BookingSystem \<Rightarrow> bool" where
  "allocated s =
     list_all (\<lambda>(key, r). r < next_ref (objs s))
       (sys_users s @ sys_admins s @ sys_tickets s @ sys_orders s)"

text \<open>
  What "the same entities" means for a heap \<open>h'\<close> after loading and the heap \<open>h\<close> that
  was saved: \<open>h'\<close> holds, \<open>k\<close> addresses further up, an object for every object of \<open>h\<close>,
  with the same attribute values, its references moved up by \<open>k\<close> as well, so that they
  lead to the copies. \<open>same_entries\<close> says it of a dictionary: the same keys in the same
  order, each with the copy of the object it had.
\<close>

definition copy_at :: "heap \<Rightarrow> nat \<Rightarrow> heap \<Rightarrow> bool" where
  "copy_at h k h' =
     (\<forall>r < next_ref h.
        ticket_objs h' (r + k) = shift_ticket k (ticket_objs h r)
        \<and> order_objs h' (r + k) = shift_order k (order_objs h r)
        \<and> user_objs h' (r + k) = shift_user k (user_objs h r))"

definition same_entries ::
  "('a \<Rightarrow> 'a) \<Rightarrow> (ref \<Rightarrow> 'a) \<Rightarrow> (ref \<Rightarrow> 'a) \<Rightarrow> (string \<times> ref) list \<Rightarrow> (string \<times> ref) list \<Rightarrow> bool" where
  "same_entries shift before after d d' =
     list_all2 (\<lambda>(key, r) (key', r'). key' = key \<and> after r' = shift (before r)) d d'"

text \<open>An empty heap and a system on an empty, working disk, for examples.\<close>

definition empty_heap :: heap where
  "empty_heap =
     \<lparr>ticket_objs = (\<lambda>r. Ticket_init [] 0 (Date 1 1 1) [] (SeasonTicket 0 [] [])),
      order_objs = (\<lambda>r. Order_new [] (Date 1 1 1)),
      user_objs = (\<lambda>r. \<lparr>user_id = [], username = [], password = [], email = [],
                        phone_number = None, orders = [], account = PlainUser\<rparr>),
      next_ref = 0\<rparr>"

definition blank_system :: BookingSystem where
  "blank_system =
     \<lparr>sys_name = ''Grand Prix Experience'', sys_version = ''1.0'', database = None,
      sys_users = [], sys_admins = [], sys_tickets = [], sys_orders = [],
      objs = empty_heap, files = Map.empty, failing = (\<lambda>path. False), log_lines = []\<rparr>"

section \<open>Examples\<close>

text \<open>
  The objects of the demonstration in \<^verbatim>\<open>main()\<close>: a premium single race ticket for
  200, a season ticket for 1000 with five races, the user john_doe and an admin, and a
  system that holds them with one order.
\<close>

definition season_example :: "nat \<Rightarrow> Ticket" where
  "season_example n =
     Ticket_init ''TKT-002'' 1000 (Date 2025 1 1) ''VIP Lounge''
       (SeasonTicket 2025 (replicate n ''Monaco'') [])"

definition demo_single :: Ticket where
  "demo_single = Ticket_init ''TKT-001'' 200 (Date 2025 6 15) ''Main Grandstand''
                   (SingleRaceTicket ''Monaco Grand Prix'' (Member PREMIUM))"

definition demo_season :: Ticket where
  "demo_season = Ticket_init ''TKT-002'' 1000 (Date 2025 1 1) ''VIP Lounge''
                   (SeasonTicket 2025 [''Monaco'', ''Silverstone'', ''Monza'', ''Singapore'', ''Abu Dhabi''] [])"

definition demo_tickets :: "ref \<Rightarrow> Ticket" where
  "demo_tickets = (ticket_objs empty_heap)(0 := demo_single, 1 := demo_season)"

definition demo_order :: Order where
  "demo_order = (Order_new ''ORD-1'' (Date 2024 12 1))\<lparr>tickets := [0, 1], total_amount := 1140\<rparr>"




definition demo_user :: User where
  "demo_user = \<lparr>user_id = ''USR-001'', username = ''john_doe'', password = ''password123'',
                 email = ''john@example.com'', phone_number = Some ''555-1234'', orders = [0],
                 account = PlainUser\<rparr>"

definition demo_admin :: User where
  "demo_admin = \<lparr>user_id = ''ADM-002'', username = ''admin_user'', password = ''admin123'',
                  email = ''admin@example.com'', phone_number = Some ''555-5678'', orders = [],
                  account = Admin 2 ''Operations''\<rparr>"

definition demo_system :: BookingSystem where
  "demo_system =
     blank_system
       \<lparr>sys_users := [(''john_doe'', 0), (''admin_user'', 1)],
        sys_admins := [(''admin_user'', 1)],
        sys_tickets := [(''TKT-001'', 0), (''TKT-002'', 1)],
        sys_orders := [(''ORD-1'', 0)],
        objs := \<lparr>ticket_objs = (ticket_objs empty_heap)
                               (0 := demo_single\<lparr>created_by := Some 1\<rparr>,
                                1 := demo_season\<lparr>created_by := Some 1\<rparr>),
                 order_objs = (order_objs empty_heap)
                               (0 := demo_order\<lparr>order_user_id := Some ''john_doe''\<rparr>),
                 user_objs = (user_objs empty_heap)(0 := demo_user, 1 := demo_admin),
                 next_ref = 2\<rparr>\<rparr>"

text \<open>The example system saved, and a new process started on the files it wrote.\<close>

definition saved_demo :: BookingSystem where
  "saved_demo = snd (save_data demo_system)"

definition restarted_demo :: BookingSystem where
  "restarted_demo =
     BookingSystem_init ''Grand Prix Experience'' ''1.0'' empty_heap (files saved_demo) (\<lambda>path. False)"

section \<open>Properties of tickets\<close>

lemma set_price_negative:
  "p < 0 \<Longrightarrow> set_price t p = Inl (ValueError ''Price cannot be negative'')"
  by (simp add: set_price_def)

lemma set_price_result_nonneg: "set_price t p = Inr t' \<Longrightarrow> 0 \<le> price t' \<and> price t' = p"
  by (auto simp: set_price_def split: if_splits)

lemma Ticket_set_price_negative:
  "p < 0 \<Longrightarrow> Ticket_set_price h r p = (Some (ValueError ''Price cannot be negative''), h)"
  by (simp add: Ticket_set_price_def set_price_def)

text \<open>
  Claim C4. The price of a season ticket follows from the length of its list of included
  races when \<^verbatim>\<open>calculate_price()\<close> is called: 15 races or more give 0.7 of the base
  price, 10 to 14 give 0.8, 5 to 9 give 0.9, fewer than 5 give the base price. With a base
  price of 1000, exactly 5, 10 and 15 races give 900, 800 and 700, 4 races give 1000 and
  14 races give 800. \<^verbatim>\<open>set_included_races\<close> replaces the list and nothing else, so the
  next call prices the new length.
\<close>

theorem season_ticket_price_tiers:
  assumes "variant t = SeasonTicket yr races dates"
  shows "(15 \<le> length races \<longrightarrow> calculate_price t = price t * (7 / 10))
     \<and> (10 \<le> length races \<and> length races \<le> 14 \<longrightarrow> calculate_price t = price t * (8 / 10))
     \<and> (5 \<le> length races \<and> length races \<le> 9 \<longrightarrow> calculate_price t = price t * (9 / 10))
     \<and> (length races < 5 \<longrightarrow> calculate_price t = price t)
     \<and> (price t = 1000 \<and> length races = 5 \<longrightarrow> calculate_price t = 900)
     \<and> (price t = 1000 \<and> length races = 10 \<longrightarrow> calculate_price t = 800)
     \<and> (price t = 1000 \<and> length races = 15 \<longrightarrow> calculate_price t = 700)
     \<and> (price t = 1000 \<and> length races = 4 \<longrightarrow> calculate_price t = 1000)
     \<and> (price t = 1000 \<and> length races = 14 \<longrightarrow> calculate_price t = 800)
     \<and> set_included_races t races' = Inr (t\<lparr>variant := SeasonTicket yr races' dates\<rparr>)"
  using assms by (simp add: calculate_price_def set_included_races_def)

text \<open>The tiers at tickets with a base price of 1000 and 5, 10, 15, 4, 14 and 20 races,
  and at a ticket whose list of 4 races is replaced by one of 15.\<close>

theorem season_ticket_price_tiers_witness:
  "calculate_price (season_example 5) = 900
   \<and> calculate_price (season_example 10) = 800
   \<and> calculate_price (season_example 15) = 700
   \<and> calculate_price (season_example 4) = 1000
   \<and> calculate_price (season_example 14) = 800
   \<and> calculate_price (season_example 20) = 700
   \<and> map_sum id calculate_price (set_included_races (season_example 4) (replicate 15 ''Monza'')) = Inr 700"
proof -
  have v: "variant (season_example n) = SeasonTicket 2025 (replicate n ''Monaco'') []"
    and p: "price (season_example n) = 1000" for n
    by (simp_all add: season_example_def Ticket_init_def)
  have "variant ((season_example 4)\<lparr>variant := SeasonTicket 2025 (replicate 15 ''Monza'') []\<rparr>)
          = SeasonTicket 2025 (replicate 15 ''Monza'') []"
    by simp
  from season_ticket_price_tiers [OF v [of 5]] season_ticket_price_tiers [OF v [of 10]]
    season_ticket_price_tiers [OF v [of 15]] season_ticket_price_tiers [OF v [of 4]]
    season_ticket_price_tiers [OF v [of 14]] season_ticket_price_tiers [OF v [of 20]]
    season_ticket_price_tiers [OF v [of 4], of "replicate 15 ''Monza''"]
    season_ticket_price_tiers [OF this]
  show ?thesis by (simp add: p)
qed

text \<open>
  Claim C5. The claim is that the base price of a ticket is never negative, at
  construction as on every change. \<^verbatim>\<open>set_price\<close> keeps it so: a negative argument
  raises and the ticket is left as it was (\<open>set_price_negative\<close>), and a price it sets is
  not negative (\<open>set_price_result_nonneg\<close>). The constructor does not: a single race ticket
  built with the price -5 exists and has the price -5.
\<close>

theorem ticket_init_accepts_negative_price:
  "SingleRaceTicket_init ''TKT-9'' (- 5) (Date 2025 6 15) ''Main Grandstand''
      ''Monaco Grand Prix'' (Member STANDARD)
     = Inr (Ticket_init ''TKT-9'' (- 5) (Date 2025 6 15) ''Main Grandstand''
              (SingleRaceTicket ''Monaco Grand Prix'' (Member STANDARD)))
   \<and> price (Ticket_init ''TKT-9'' (- 5) (Date 2025 6 15) ''Main Grandstand''
              (SingleRaceTicket ''Monaco Grand Prix'' (Member STANDARD))) = - 5
   \<and> set_price (Ticket_init ''TKT-9'' 5 (Date 2025 6 15) ''Main Grandstand''
              (SingleRaceTicket ''Monaco Grand Prix'' (Member STANDARD))) (- 5)
     = Inl (ValueError ''Price cannot be negative'')"
  by (simp add: SingleRaceTicket_init_def Ticket_init_def set_price_def)

text \<open>
  Claim C6, as the code has it. Constructing a single race ticket never fails and does not
  look at the category: the value given is stored as it is. \<^verbatim>\<open>calculate_price()\<close> then
  gives 1.2 of the base price for PREMIUM, the base price for STANDARD, and 0.9 of the
  base price for every other value, a member of the enum or not.
\<close>

theorem single_race_category_unchecked:
  "SingleRaceTicket_init tid p d sec rname rcat
     = Inr (Ticket_init tid p d sec (SingleRaceTicket rname rcat))
   \<and> race_category (variant (Ticket_init tid p d sec (SingleRaceTicket rname rcat))) = rcat
   \<and> calculate_price (Ticket_init tid p d sec (SingleRaceTicket rname rcat))
       = (if rcat = Member PREMIUM then p * (12 / 10)
          else if rcat = Member STANDARD then p
          else p * (9 / 10))"
  by (simp add: SingleRaceTicket_init_def Ticket_init_def calculate_price_def)

text \<open>The three members at a base price of 200, and the text \<^verbatim>\<open>"Premium"\<close> in place of
  the member: it is priced as ECONOMY.\<close>

theorem single_race_category_unchecked_witness:
  "map_sum id calculate_price
     (SingleRaceTicket_init ''TKT-001'' 200 (Date 2025 6 15) ''Main Grandstand''
        ''Monaco Grand Prix'' (Member PREMIUM)) = Inr 240
   \<and> map_sum id calculate_price
     (SingleRaceTicket_init ''TKT-001'' 200 (Date 2025 6 15) ''Main Grandstand''
        ''Monaco Grand Prix'' (Member STANDARD)) = Inr 200
   \<and> map_sum id calculate_price
     (SingleRaceTicket_init ''TKT-001'' 200 (Date 2025 6 15) ''Main Grandstand''
        ''Monaco Grand Prix'' (Member ECONOMY)) = Inr 180
   \<and> map_sum id calculate_price
     (SingleRaceTicket_init ''TKT-001'' 200 (Date 2025 6 15) ''Main Grandstand''
        ''Monaco Grand Prix'' (NonMember ''Premium'')) = Inr 180"
  using single_race_category_unchecked [of "''TKT-001''" 200 "Date 2025 6 15" "''Main Grandstand''"
          "''Monaco Grand Prix''" "Member PREMIUM"]
    single_race_category_unchecked [of "''TKT-001''" 200 "Date 2025 6 15" "''Main Grandstand''"
          "''Monaco Grand Prix''" "Member STANDARD"]
    single_race_category_unchecked [of "''TKT-001''" 200 "Date 2025 6 15" "''Main Grandstand''"
          "''Monaco Grand Prix''" "Member ECONOMY"]
    single_race_category_unchecked [of "''TKT-001''" 200 "Date 2025 6 15" "''Main Grandstand''"
          "''Monaco Grand Prix''" "NonMember ''Premium''"]
  by simp

text \<open>
  Against claim C6 as it is written (a category outside the enum fails at construction):
  the constructor returns a ticket for the category \<^verbatim>\<open>"VIP"\<close>, and the ticket has a
  price, 180 for the base price 200.
\<close>

theorem unrecognized_category_accepted:
  "SingleRaceTicket_init ''TKT-9'' 200 (Date 2025 6 15) ''Main Grandstand'' ''Monaco Grand Prix''
      (NonMember ''VIP'')
     = Inr (Ticket_init ''TKT-9'' 200 (Date 2025 6 15) ''Main Grandstand''
              (SingleRaceTicket ''Monaco Grand Prix'' (NonMember ''VIP'')))
   \<and> calculate_price (Ticket_init ''TKT-9'' 200 (Date 2025 6 15) ''Main Grandstand''
              (SingleRaceTicket ''Monaco Grand Prix'' (NonMember ''VIP''))) = 180"
  by (simp add: SingleRaceTicket_init_def Ticket_init_def calculate_price_def)

lemma create_ticket_passes_category:
  "create_ticket h a ''SingleRace'' tid p d sec
     \<lparr>kw_race_name = Some ''Monaco'', kw_race_category = Some rcat, kw_season_year = None,
      kw_included_races = None, kw_race_dates = None\<rparr>
   = Inr (new_ticket h ((Ticket_init tid p d sec (SingleRaceTicket ''Monaco'' rcat))\<lparr>created_by := Some a\<rparr>))"
  by (simp add: create_ticket_def SingleRaceTicket_init_def set_created_by_def)

section \<open>Properties of orders\<close>

lemma calculate_total_total_amount [simp]:
  "calculate_total ts (ord\<lparr>total_amount := x\<rparr>) = calculate_total ts ord"
  by (simp add: calculate_total_def)

text \<open>
  Claim C1. \<^verbatim>\<open>confirm_order()\<close> returns True exactly when the ticket list is not empty
  and a payment method is set. When it returns True the order is as before but for its
  status, which is CONFIRMED; when it returns False the order is unchanged. With no ticket
  it fails whatever the payment method is; with a ticket and a payment method it succeeds
  whatever the status was.
\<close>

theorem confirm_order_iff:
  "(fst (confirm_order ord) \<longleftrightarrow> tickets ord \<noteq> [] \<and> payment_method ord \<noteq> None)
   \<and> (fst (confirm_order ord) \<longrightarrow> snd (confirm_order ord) = ord\<lparr>status := CONFIRMED\<rparr>)
   \<and> (\<not> fst (confirm_order ord) \<longrightarrow> snd (confirm_order ord) = ord)
   \<and> (tickets ord = [] \<longrightarrow>
        confirm_order (ord\<lparr>payment_method := pm\<rparr>) = (False, ord\<lparr>payment_method := pm\<rparr>))
   \<and> (tickets ord \<noteq> [] \<longrightarrow>
        confirm_order (ord\<lparr>payment_method := Some m, status := st\<rparr>)
          = (True, ord\<lparr>payment_method := Some m, status := CONFIRMED\<rparr>))"
  by (simp add: confirm_order_def)

text \<open>An order with two tickets: confirmed from CANCELLED once a payment method is set,
  refused without one; and an order without tickets, refused with a payment method.\<close>

theorem confirm_order_iff_witness:
  "confirm_order (demo_order\<lparr>payment_method := Some CREDIT_CARD, status := CANCELLED\<rparr>)
     = (True, demo_order\<lparr>payment_method := Some CREDIT_CARD, status := CONFIRMED\<rparr>)
   \<and> confirm_order demo_order = (False, demo_order)
   \<and> confirm_order ((Order_new ''ORD-2'' (Date 2024 12 1))\<lparr>payment_method := Some DEBIT_CARD\<rparr>)
     = (False, (Order_new ''ORD-2'' (Date 2024 12 1))\<lparr>payment_method := Some DEBIT_CARD\<rparr>)"
proof -
  have t: "tickets demo_order \<noteq> []" and e: "tickets (Order_new ''ORD-2'' (Date 2024 12 1)) = []"
    and p: "payment_method demo_order = None"
    by (simp_all add: demo_order_def Order_new_def Order_init_def)
  from confirm_order_iff [of demo_order, where m = CREDIT_CARD and st = CANCELLED] t
  have a: "confirm_order (demo_order\<lparr>payment_method := Some CREDIT_CARD, status := CANCELLED\<rparr>)
     = (True, demo_order\<lparr>payment_method := Some CREDIT_CARD, status := CONFIRMED\<rparr>)"
    by blast
  from confirm_order_iff [of demo_order] p have b: "confirm_order demo_order = (False, demo_order)"
    by (simp add: prod_eq_iff)
  from confirm_order_iff [of "Order_new ''ORD-2'' (Date 2024 12 1)", where pm = "Some DEBIT_CARD"] e
  have c: "confirm_order ((Order_new ''ORD-2'' (Date 2024 12 1))\<lparr>payment_method := Some DEBIT_CARD\<rparr>)
     = (False, (Order_new ''ORD-2'' (Date 2024 12 1))\<lparr>payment_method := Some DEBIT_CARD\<rparr>)"
    by blast
  from a b c show ?thesis by blast
qed

text \<open>
  Claim C2. \<^verbatim>\<open>cancel_order()\<close> returns True exactly when no ticket of the order is used
  and no ticket has an event date before today. When it returns True the order is as
  before but for its status, which is CANCELLED; when it returns False the order is
  unchanged. The status the order had does not enter the result, so a confirmed order is
  cancelled like any other.
\<close>

theorem cancel_order_iff:
  "(fst (cancel_order ts today ord) \<longleftrightarrow>
      (\<forall>r \<in> set (tickets ord). \<not> is_used (ts r))
      \<and> (\<forall>r \<in> set (tickets ord). \<not> date_less (event_date (ts r)) today))
   \<and> (fst (cancel_order ts today ord) \<longrightarrow>
        snd (cancel_order ts today ord) = ord\<lparr>status := CANCELLED\<rparr>)
   \<and> (\<not> fst (cancel_order ts today ord) \<longrightarrow> snd (cancel_order ts today ord) = ord)
   \<and> fst (cancel_order ts today (ord\<lparr>status := st\<rparr>)) = fst (cancel_order ts today ord)"
  by (auto simp: cancel_order_def list_ex_iff)

text \<open>A confirmed order whose season ticket starts today is cancelled; a day later it is
  not; with a used ticket it is not, although no date has passed.\<close>

theorem cancel_order_iff_witness:
  "cancel_order demo_tickets (Date 2025 1 1) (demo_order\<lparr>status := CONFIRMED\<rparr>)
     = (True, demo_order\<lparr>status := CANCELLED\<rparr>)
   \<and> cancel_order demo_tickets (Date 2025 1 2) demo_order = (False, demo_order)
   \<and> cancel_order (demo_tickets(0 := set_used demo_single True)) (Date 2025 1 1) demo_order
     = (False, demo_order)"
proof -
  have t: "tickets demo_order = [0, 1]" "tickets (demo_order\<lparr>status := CONFIRMED\<rparr>) = [0, 1]"
    by (simp_all add: demo_order_def)
  have s: "demo_tickets 0 = demo_single" "demo_tickets (Suc 0) = demo_season"
    by (simp_all add: demo_tickets_def)
  have f: "is_used demo_single = False" "is_used demo_season = False"
    "event_date demo_single = Date 2025 6 15" "event_date demo_season = Date 2025 1 1"
    by (simp_all add: demo_single_def demo_season_def Ticket_init_def)
  from cancel_order_iff [of demo_tickets "Date 2025 1 1" "demo_order\<lparr>status := CONFIRMED\<rparr>"]
  have a: "cancel_order demo_tickets (Date 2025 1 1) (demo_order\<lparr>status := CONFIRMED\<rparr>)
     = (True, demo_order\<lparr>status := CANCELLED\<rparr>)"
    by (simp add: t s f prod_eq_iff)
  from cancel_order_iff [of demo_tickets "Date 2025 1 2" demo_order]
  have b: "cancel_order demo_tickets (Date 2025 1 2) demo_order = (False, demo_order)"
    by (simp add: t s f prod_eq_iff)
  from cancel_order_iff [of "demo_tickets(0 := set_used demo_single True)" "Date 2025 1 1" demo_order]
  have c: "cancel_order (demo_tickets(0 := set_used demo_single True)) (Date 2025 1 1) demo_order
     = (False, demo_order)"
    by (simp add: t s f prod_eq_iff set_used_def)
  from a b c show ?thesis by blast
qed

lemma add_ticket_invariant:
  "add_ticket ts ord t = Inr ord' \<Longrightarrow> total_amount ord' = calculate_total ts ord'"
  by (auto simp: add_ticket_def Let_def split: if_splits)

lemma add_ticket_not_confirmed:
  "status ord \<noteq> CONFIRMED \<Longrightarrow>
   add_ticket ts ord t
     = Inr (ord\<lparr>tickets := tickets ord @ [t],
                total_amount := calculate_total ts (ord\<lparr>tickets := tickets ord @ [t]\<rparr>)\<rparr>)"
  by (simp add: add_ticket_def Let_def)

lemma remove_ticket_invariant:
  "total_amount ord = calculate_total ts ord \<Longrightarrow>
   total_amount (snd (remove_ticket ts ord tid)) = calculate_total ts (snd (remove_ticket ts ord tid))"
  by (auto simp: remove_ticket_def Let_def split: option.splits)


lemma call_invariant:
  "total_amount ord = calculate_total ts ord \<Longrightarrow>
   total_amount (call ts ord c) = calculate_total ts (call ts ord c)"
  by (cases c) (auto simp: add_ticket_invariant remove_ticket_invariant split: sum.splits)

lemma calls_invariant:
  "total_amount ord = calculate_total ts ord \<Longrightarrow>
   total_amount (calls ts ord cs) = calculate_total ts (calls ts ord cs)"
  unfolding calls_def
  by (induction cs arbitrary: ord) (simp_all add: call_invariant)

text \<open>
  Claim C3. An order starts without tickets and, as \<^verbatim>\<open>create_order\<close> builds it, with
  the total 0. After any sequence of \<^verbatim>\<open>add_ticket\<close> and \<^verbatim>\<open>remove_ticket\<close> calls the
  stored total is \<^verbatim>\<open>calculate_total()\<close>, the sum of \<^verbatim>\<open>calculate_price()\<close> over the
  tickets the order then has. (The status and the payment method the order starts with
  are any: on a confirmed order every call of the two leaves the order as it is.)
\<close>

theorem order_total_invariant:
  "total_amount (calls ts (Order_init oid d st 0 pm) cs)
     = calculate_total ts (calls ts (Order_init oid d st 0 pm) cs)"
  by (rule calls_invariant) (simp add: Order_init_def calculate_total_def)

text \<open>Two tickets added, a removal that finds nothing, a removal of the first ticket, the
  season ticket added again: the total is twice 900.\<close>

theorem order_total_invariant_witness:
  "total_amount (calls demo_tickets (Order_init ''ORD-1'' (Date 2024 12 1) PENDING 0 None)
      [AddTicket 0, AddTicket 1, RemoveTicket ''TKT-404'', RemoveTicket ''TKT-001'', AddTicket 1]) = 1800
   \<and> tickets (calls demo_tickets (Order_init ''ORD-1'' (Date 2024 12 1) PENDING 0 None)
      [AddTicket 0, AddTicket 1, RemoveTicket ''TKT-404'', RemoveTicket ''TKT-001'', AddTicket 1]) = [1, 1]"
  using order_total_invariant [of demo_tickets "''ORD-1''" "Date 2024 12 1" PENDING None
      "[AddTicket 0, AddTicket 1, RemoveTicket ''TKT-404'', RemoveTicket ''TKT-001'', AddTicket 1]"]
  by (simp add: calls_def add_ticket_def remove_ticket_def Order_init_def calculate_total_def
      demo_tickets_def demo_single_def demo_season_def Ticket_init_def calculate_price_def)







section \<open>Properties of the booking system\<close>

lemma save_data_memory:
  "sys_users (snd (save_data s)) = sys_users s" "sys_admins (snd (save_data s)) = sys_admins s"
  "sys_tickets (snd (save_data s)) = sys_tickets s" "sys_orders (snd (save_data s)) = sys_orders s"
  "objs (snd (save_data s)) = objs s" "failing (snd (save_data s)) = failing s"
  by (auto simp: save_data_def write_log_def dump_to_def split: sum.splits if_splits)

subsection \<open>Creating users\<close>

lemma set_password_short:
  "length pw < 6 \<Longrightarrow> set_password u pw = Inl (ValueError ''Password must be at least 6 characters long'')"
  by (simp add: set_password_def)

lemma set_email_no_at:
  "CHR ''@'' \<notin> set em \<Longrightarrow> set_email u em = Inl (ValueError ''Invalid email format'')"
  by (simp add: set_email_def)

text \<open>
  Claim C7. The claim is that a user with a password of fewer than 6 characters or an
  email without @ cannot be created, so that the system holds no such user. The setters
  refuse both (\<open>set_password_short\<close>, \<open>set_email_no_at\<close>); \<^verbatim>\<open>User.__init__\<close> and
  \<^verbatim>\<open>create_user\<close> check neither. On a new system, \<^verbatim>\<open>create_user\<close> with the password
  \<^verbatim>\<open>"abc"\<close> and the email \<^verbatim>\<open>"bob.example.com"\<close> returns a user, registered under its
  name, with that password and that email, each of which its own setter refuses.
\<close>

theorem create_user_accepts_invalid:
  "(case create_user blank_system ''USR-9'' ''bob'' ''abc'' ''bob.example.com'' None of
      Inl e \<Rightarrow> False
    | Inr (r, s') \<Rightarrow>
        get_user s' ''bob'' = Some r
        \<and> password (user_objs (objs s') r) = ''abc''
        \<and> email (user_objs (objs s') r) = ''bob.example.com''
        \<and> set_password (user_objs (objs s') r) ''abc''
            = Inl (ValueError ''Password must be at least 6 characters long'')
        \<and> set_email (user_objs (objs s') r) ''bob.example.com''
            = Inl (ValueError ''Invalid email format''))"
  by (simp add: create_user_def User_init_def new_user_def blank_system_def empty_heap_def
      write_log_def get_user_def save_data_memory set_password_def set_email_def)

subsection \<open>Order ids\<close>

text \<open>Different numbers have different decimal texts, so \<^verbatim>\<open>ORD-(n+1)\<close> is a new key when
  the keys are \<^verbatim>\<open>ORD-1\<close> to \<^verbatim>\<open>ORD-n\<close>.\<close>

lemma digit_char_inj: "d < 10 \<Longrightarrow> e < 10 \<Longrightarrow> digit_char d = digit_char e \<Longrightarrow> d = e"
proof -
  assume "d < 10" "e < 10" "digit_char d = digit_char e"
  moreover have "distinct ''0123456789''" by simp
  moreover have "length ''0123456789'' = 10" by simp
  ultimately show "d = e"
    unfolding digit_char_def by (metis nth_eq_iff_index_eq)
qed

lemma str_nat_not_Nil: "str_nat n \<noteq> []"
  by (subst str_nat.simps) simp

lemma str_nat_inj: "str_nat n = str_nat m \<Longrightarrow> n = m"
proof (induction n arbitrary: m rule: str_nat.induct)
  case (1 n)
  show ?case
  proof (cases "n < 10")
    case True
    with "1.prems" have "[digit_char n] = str_nat m" by (subst (asm) str_nat.simps) simp
    then have m: "m < 10" and "digit_char n = digit_char m"
      by (subst (asm) str_nat.simps; simp add: str_nat_not_Nil split: if_splits)+
    with True show ?thesis by (simp add: digit_char_inj)
  next
    case False
    with "1.prems" have e: "str_nat (n div 10) @ [digit_char (n mod 10)] = str_nat m"
      by (subst (asm) str_nat.simps) simp
    then have m: "\<not> m < 10"
      by (subst (asm) (2) str_nat.simps) (auto simp: str_nat_not_Nil)
    with e have "str_nat (n div 10) = str_nat (m div 10) \<and> digit_char (n mod 10) = digit_char (m mod 10)"
      by (subst (asm) (2) str_nat.simps) simp
    with "1.IH" [OF False] have "n div 10 = m div 10" "n mod 10 = m mod 10"
      by (auto intro: digit_char_inj)
    then show ?thesis by (metis div_mult_mod_eq)
  qed
qed

lemma update_new_key: "k \<notin> set (map fst d) \<Longrightarrow> AList.update k v d = d @ [(k, v)]"
  by (induction d) auto

lemma sequential_ids_append:
  assumes "sequential_ids d"
  shows "AList.update (''ORD-'' @ str_nat (length d + 1)) r d
           = d @ [(''ORD-'' @ str_nat (length d + 1), r)]"
    and "sequential_ids (d @ [(''ORD-'' @ str_nat (length d + 1), r)])"
proof -
  from assms have k: "map fst d = map (\<lambda>i. ''ORD-'' @ str_nat i) [1..<Suc (length d)]"
    by (simp add: sequential_ids_def)
  have "''ORD-'' @ str_nat (length d + 1) \<notin> set (map fst d)"
    unfolding k by (auto dest: str_nat_inj)
  then show "AList.update (''ORD-'' @ str_nat (length d + 1)) r d
           = d @ [(''ORD-'' @ str_nat (length d + 1), r)]"
    by (rule update_new_key)
  show "sequential_ids (d @ [(''ORD-'' @ str_nat (length d + 1), r)])"
    using k by (simp add: sequential_ids_def)
qed

lemma create_order_fst: "fst (create_order s u today) = next_ref (objs s)"
  by (simp add: create_order_def new_order_def Let_def)

lemma create_order_sys_orders:
  "sys_orders (snd (create_order s u today))
     = AList.update (''ORD-'' @ str_nat (length (sys_orders s) + 1)) (next_ref (objs s)) (sys_orders s)"
  by (simp add: create_order_def new_order_def Let_def save_data_memory write_log_def)

lemma create_order_objs:
  "objs (snd (create_order s u today)) = (objs s)
               \<lparr>order_objs := (order_objs (objs s))
                  (next_ref (objs s) :=
                     (Order_new (''ORD-'' @ str_nat (length (sys_orders s) + 1)) today)
                       \<lparr>order_user_id := Some (username (user_objs (objs s) u))\<rparr>),
                next_ref := Suc (next_ref (objs s)),
                user_objs := (user_objs (objs s))
                  (u := add_order (user_objs (objs s) u) (next_ref (objs s)))\<rparr>"
  by (simp add: create_order_def new_order_def Let_def save_data_memory write_log_def
      Order_set_user_id_def)

lemma create_order_new_id:
  "order_id (order_objs (objs (snd (create_order s u today))) (fst (create_order s u today)))
     = ''ORD-'' @ str_nat (length (sys_orders s) + 1)"
  by (simp add: create_order_fst create_order_objs Order_new_def Order_init_def)

lemma create_order_sequential:
  assumes "sequential_ids (sys_orders s)"
  shows "sequential_ids (sys_orders (snd (create_order s u today)))"
    and "length (sys_orders (snd (create_order s u today))) = Suc (length (sys_orders s))"
  using sequential_ids_append [OF assms, of "next_ref (objs s)"]
  by (simp_all add: create_order_sys_orders)

lemma create_orders_ids:
  "sequential_ids (sys_orders s) \<Longrightarrow>
   fst (create_orders s us today)
     = map (\<lambda>i. ''ORD-'' @ str_nat i)
         [length (sys_orders s) + 1 ..< length (sys_orders s) + 1 + length us]"
proof (induction us arbitrary: s)
  case Nil
  then show ?case by simp
next
  case (Cons u us)
  let ?s1 = "snd (create_order s u today)"
  from Cons.prems have q: "sequential_ids (sys_orders ?s1)"
    and l: "length (sys_orders ?s1) = Suc (length (sys_orders s))"
    by (rule create_order_sequential)+
  have "[length (sys_orders s) + 1 ..< length (sys_orders s) + 1 + length (u # us)]
          = (length (sys_orders s) + 1) # [length (sys_orders ?s1) + 1 ..< length (sys_orders ?s1) + 1 + length us]"
    by (simp add: l upt_conv_Cons del: upt_Suc)
  then show ?case
    using Cons.IH [OF q] create_order_new_id [of s u today]
    by (simp add: split_beta)
qed

text \<open>
  Claim C8, as the code has it. \<^verbatim>\<open>create_order(user)\<close> builds a new order object whose
  id is \<^verbatim>\<open>ORD-\<close> followed by the number of orders in the order dictionary plus one. The
  order is PENDING, dated today, without tickets or payment method, with the total 0, and
  its user id field holds the user's \<^emph>\<open>username\<close> (the key of the user dictionary). The
  order is appended to the user's order list and stored in the order dictionary under its
  id. When the keys of the order dictionary are \<^verbatim>\<open>ORD-1\<close> to \<^verbatim>\<open>ORD-n\<close>, as they are when
  \<^verbatim>\<open>create_order\<close> has made them, the call adds \<^verbatim>\<open>ORD-(n+1)\<close> at the end and the keys
  are \<^verbatim>\<open>ORD-1\<close> to \<^verbatim>\<open>ORD-(n+1)\<close>; successive calls, for any users, return the ids
  \<^verbatim>\<open>ORD-(n+1)\<close>, \<^verbatim>\<open>ORD-(n+2)\<close> and so on, whatever the status of the orders is.
\<close>

theorem create_order_result:
  assumes "create_order s u today = (r, s')"
  shows "order_id (order_objs (objs s') r) = ''ORD-'' @ str_nat (length (sys_orders s) + 1)
     \<and> status (order_objs (objs s') r) = PENDING
     \<and> order_date (order_objs (objs s') r) = today
     \<and> total_amount (order_objs (objs s') r) = 0
     \<and> payment_method (order_objs (objs s') r) = None
     \<and> tickets (order_objs (objs s') r) = []
     \<and> order_user_id (order_objs (objs s') r) = Some (username (user_objs (objs s) u))
     \<and> orders (user_objs (objs s') u) = orders (user_objs (objs s) u) @ [r]
     \<and> get_order s' (''ORD-'' @ str_nat (length (sys_orders s) + 1)) = Some r
     \<and> r = next_ref (objs s)
     \<and> (sequential_ids (sys_orders s) \<longrightarrow>
          sys_orders s' = sys_orders s @ [(''ORD-'' @ str_nat (length (sys_orders s) + 1), r)]
          \<and> sequential_ids (sys_orders s')
          \<and> fst (create_orders s us today)
              = map (\<lambda>i. ''ORD-'' @ str_nat i)
                  [length (sys_orders s) + 1 ..< length (sys_orders s) + 1 + length us])"
proof -
  from assms have "r = fst (create_order s u today)" and s': "s' = snd (create_order s u today)"
    by simp_all
  then have r: "r = next_ref (objs s)" by (simp add: create_order_fst)
  have o: "sys_orders s' = AList.update (''ORD-'' @ str_nat (length (sys_orders s) + 1)) r (sys_orders s)"
    by (simp add: s' r create_order_sys_orders)
  have h: "objs s' = (objs s)
               \<lparr>order_objs := (order_objs (objs s))
                  (r := (Order_new (''ORD-'' @ str_nat (length (sys_orders s) + 1)) today)
                       \<lparr>order_user_id := Some (username (user_objs (objs s) u))\<rparr>),
                next_ref := Suc (next_ref (objs s)),
                user_objs := (user_objs (objs s))(u := add_order (user_objs (objs s) u) r)\<rparr>"
    by (simp add: s' r create_order_objs)
  have seq: "sequential_ids (sys_orders s) \<longrightarrow>
          sys_orders s' = sys_orders s @ [(''ORD-'' @ str_nat (length (sys_orders s) + 1), r)]
          \<and> sequential_ids (sys_orders s')
          \<and> fst (create_orders s us today)
              = map (\<lambda>i. ''ORD-'' @ str_nat i)
                  [length (sys_orders s) + 1 ..< length (sys_orders s) + 1 + length us]"
    using sequential_ids_append [of "sys_orders s" r] create_orders_ids [of s us today]
    by (simp add: o)
  have basic: "order_id (order_objs (objs s') r) = ''ORD-'' @ str_nat (length (sys_orders s) + 1)
     \<and> status (order_objs (objs s') r) = PENDING
     \<and> order_date (order_objs (objs s') r) = today
     \<and> total_amount (order_objs (objs s') r) = 0
     \<and> payment_method (order_objs (objs s') r) = None
     \<and> tickets (order_objs (objs s') r) = []
     \<and> order_user_id (order_objs (objs s') r) = Some (username (user_objs (objs s) u))
     \<and> orders (user_objs (objs s') u) = orders (user_objs (objs s) u) @ [r]
     \<and> get_order s' (''ORD-'' @ str_nat (length (sys_orders s) + 1)) = Some r"
    by (simp add: h o get_order_def update_conv' Order_new_def Order_init_def add_order_def)
  from basic r seq show ?thesis by blast
qed

text \<open>A system with the order \<^verbatim>\<open>ORD-1\<close>: the next order of john_doe is \<^verbatim>\<open>ORD-2\<close>, and
  three calls in a row return \<^verbatim>\<open>ORD-2\<close>, \<^verbatim>\<open>ORD-3\<close>, \<^verbatim>\<open>ORD-4\<close>.\<close>

theorem create_order_result_witness:
  "order_id (order_objs (objs (snd (create_order demo_system 0 (Date 2025 3 14))))
      (fst (create_order demo_system 0 (Date 2025 3 14)))) = ''ORD-2''
   \<and> order_user_id (order_objs (objs (snd (create_order demo_system 0 (Date 2025 3 14))))
      (fst (create_order demo_system 0 (Date 2025 3 14)))) = Some ''john_doe''
   \<and> orders (user_objs (objs (snd (create_order demo_system 0 (Date 2025 3 14)))) 0) = [0, 2]
   \<and> sys_orders (snd (create_order demo_system 0 (Date 2025 3 14))) = [(''ORD-1'', 0), (''ORD-2'', 2)]
   \<and> sequential_ids (sys_orders (snd (create_order demo_system 0 (Date 2025 3 14))))
   \<and> fst (create_orders demo_system [0, 1, 0] (Date 2025 3 14)) = [''ORD-2'', ''ORD-3'', ''ORD-4'']"
proof -
  have q: "sequential_ids (sys_orders demo_system)"
    by (simp add: sequential_ids_def demo_system_def blank_system_def str_nat.simps digit_char_def)
  have f: "length (sys_orders demo_system) = 1" "sys_orders demo_system = [(''ORD-1'', 0)]"
    "next_ref (objs demo_system) = 2" "username (user_objs (objs demo_system) 0) = ''john_doe''"
    "orders (user_objs (objs demo_system) 0) = [0]"
    by (simp_all add: demo_system_def blank_system_def demo_user_def)
  have n: "str_nat (Suc (Suc 0)) = ''2''" "str_nat (Suc (Suc (Suc 0))) = ''3''"
    "str_nat (Suc (Suc (Suc (Suc 0)))) = ''4''"
    by (simp_all add: str_nat.simps digit_char_def)
  have l: "[2 ..< 5] = [2, 3, 4 :: nat]"
    by (simp add: upt_rec)
  note c = create_order_result [OF prod.collapse [symmetric], of demo_system 0 "Date 2025 3 14"
      "[0, 1, 0]"]
  from c have r: "fst (create_order demo_system 0 (Date 2025 3 14)) = 2"
    by (simp add: f)
  from c q show ?thesis by (clarsimp simp: f n r l simp del: create_orders.simps)
qed

text \<open>
  Against claim C8 as it is written (the order is linked to the user's id): for the user
  with the id \<^verbatim>\<open>USR-001\<close> and the username \<^verbatim>\<open>john_doe\<close> the order holds \<^verbatim>\<open>john_doe\<close>.
\<close>

theorem order_links_username_not_user_id:
  "order_user_id (order_objs (objs (snd (create_order demo_system 0 (Date 2025 3 14))))
      (fst (create_order demo_system 0 (Date 2025 3 14)))) = Some ''john_doe''
   \<and> user_id (user_objs (objs demo_system) 0) = ''USR-001''
   \<and> username (user_objs (objs demo_system) 0) = ''john_doe''"
  by (simp add: create_order_fst create_order_objs demo_system_def blank_system_def demo_user_def)

subsection \<open>What the operations keep\<close>

text \<open>
  The two conditions used below and above hold of a new system and are kept: the
  dictionaries hold addresses in use, and \<^verbatim>\<open>update_order\<close> leaves the keys of the order
  dictionary as they are.
\<close>

lemma list_all_update:
  "list_all P d \<Longrightarrow> P (k, v) \<Longrightarrow> list_all P (AList.update k v d)"
  by (induction d) auto

lemma list_all_less_Suc:
  "list_all (\<lambda>(key, r). r < n) d \<Longrightarrow> list_all (\<lambda>(key, r). r < Suc n) (d :: (string \<times> ref) list)"
  by (induction d) auto

lemma allocated_blank: "allocated blank_system"
  by (simp add: allocated_def blank_system_def)

lemma allocated_create_user:
  assumes "allocated s" "create_user s uid uname pw em phone = Inr (r, s')"
  shows "allocated s'"
proof -
  from assms(2) have r: "r = next_ref (objs s)"
    and u: "sys_users s' = AList.update uname r (sys_users s)"
    and o: "sys_admins s' = sys_admins s" "sys_tickets s' = sys_tickets s" "sys_orders s' = sys_orders s"
    and n: "next_ref (objs s') = Suc (next_ref (objs s))"
    by (auto simp: create_user_def User_init_def new_user_def save_data_memory write_log_def
        split: if_splits)
  from assms(1) have "list_all (\<lambda>(key, a). a < Suc (next_ref (objs s)))
       (sys_users s @ sys_admins s @ sys_tickets s @ sys_orders s)"
    unfolding allocated_def by (rule list_all_less_Suc)
  then show ?thesis
    unfolding allocated_def u o n by (auto simp: r intro: list_all_update)
qed

lemma allocated_create_order:
  assumes "allocated s"
  shows "allocated (snd (create_order s u today))"
proof -
  from assms have "list_all (\<lambda>(key, a). a < Suc (next_ref (objs s)))
       (sys_users s @ sys_admins s @ sys_tickets s @ sys_orders s)"
    unfolding allocated_def by (rule list_all_less_Suc)
  then show ?thesis
    unfolding allocated_def
    by (auto simp: create_order_sys_orders create_order_objs create_order_def new_order_def Let_def
        save_data_memory write_log_def intro: list_all_update)
qed

lemma sequential_ids_update_existing:
  assumes "map_of d k \<noteq> None" "sequential_ids d"
  shows "sequential_ids (AList.update k v d)"
proof -
  from assms(1) have k: "map fst (AList.update k v d) = map fst d"
    by (simp add: update_keys map_of_eq_None_iff)
  then have "length (AList.update k v d) = length d"
    by (metis length_map)
  with k assms(2) show ?thesis
    by (simp add: sequential_ids_def)
qed

lemma update_order_sequential:
  "sequential_ids (sys_orders s) \<Longrightarrow> update_order s a = Inr s' \<Longrightarrow> sequential_ids (sys_orders s')"
  by (auto simp: update_order_def Let_def save_data_memory write_log_def
      sequential_ids_update_existing split: if_splits)

subsection \<open>Saving and loading\<close>

lemma save_data_True:
  assumes "save_data s = (True, s1)"
  shows "files s1 ''data/users.pkl'' = Some \<lparr>pickled_dict = sys_users s, pickled_objs = objs s\<rparr>"
    and "files s1 ''data/admins.pkl'' = Some \<lparr>pickled_dict = sys_admins s, pickled_objs = objs s\<rparr>"
    and "files s1 ''data/tickets.pkl'' = Some \<lparr>pickled_dict = sys_tickets s, pickled_objs = objs s\<rparr>"
    and "files s1 ''data/orders.pkl'' = Some \<lparr>pickled_dict = sys_orders s, pickled_objs = objs s\<rparr>"
    and "\<not> failing s1 ''data/users.pkl''" and "\<not> failing s1 ''data/admins.pkl''"
    and "\<not> failing s1 ''data/tickets.pkl''" and "\<not> failing s1 ''data/orders.pkl''"
    and "objs s1 = objs s"
  using assms
  by (auto simp: save_data_def dump_to_def write_log_def split: if_splits)

lemma save_data_works:
  assumes "\<not> failing s ''data/users.pkl''" "\<not> failing s ''data/admins.pkl''"
    "\<not> failing s ''data/tickets.pkl''" "\<not> failing s ''data/orders.pkl''"
  shows "fst (save_data s)"
  using assms by (simp add: save_data_def dump_to_def write_log_def)

lemma load_users_ok:
  assumes "files s ''data/users.pkl'' = Some pf" "\<not> failing s ''data/users.pkl''"
  shows "\<exists>s'. load_users s = Inr s' \<and> sys_users s' = shift_dict (next_ref (objs s)) (pickled_dict pf)
     \<and> objs s' = graft (objs s) (pickled_objs pf) \<and> files s' = files s \<and> failing s' = failing s
     \<and> sys_admins s' = sys_admins s \<and> sys_tickets s' = sys_tickets s \<and> sys_orders s' = sys_orders s"
  using assms by (simp add: load_users_def read_pickle_def pickle_load_def write_log_def)

lemma load_admins_ok:
  assumes "files s ''data/admins.pkl'' = Some pf" "\<not> failing s ''data/admins.pkl''"
  shows "\<exists>s'. load_admins s = Inr s' \<and> sys_admins s' = shift_dict (next_ref (objs s)) (pickled_dict pf)
     \<and> objs s' = graft (objs s) (pickled_objs pf) \<and> files s' = files s \<and> failing s' = failing s
     \<and> sys_users s' = sys_users s \<and> sys_tickets s' = sys_tickets s \<and> sys_orders s' = sys_orders s"
  using assms by (simp add: load_admins_def read_pickle_def pickle_load_def write_log_def)

lemma load_tickets_ok:
  assumes "files s ''data/tickets.pkl'' = Some pf" "\<not> failing s ''data/tickets.pkl''"
  shows "\<exists>s'. load_tickets s = Inr s' \<and> sys_tickets s' = shift_dict (next_ref (objs s)) (pickled_dict pf)
     \<and> objs s' = graft (objs s) (pickled_objs pf) \<and> files s' = files s \<and> failing s' = failing s
     \<and> sys_users s' = sys_users s \<and> sys_admins s' = sys_admins s \<and> sys_orders s' = sys_orders s"
  using assms by (simp add: load_tickets_def read_pickle_def pickle_load_def write_log_def)

lemma load_orders_ok:
  assumes "files s ''data/orders.pkl'' = Some pf" "\<not> failing s ''data/orders.pkl''"
  shows "\<exists>s'. load_orders s = Inr s' \<and> sys_orders s' = shift_dict (next_ref (objs s)) (pickled_dict pf)
     \<and> objs s' = graft (objs s) (pickled_objs pf) \<and> files s' = files s \<and> failing s' = failing s
     \<and> sys_users s' = sys_users s \<and> sys_admins s' = sys_admins s \<and> sys_tickets s' = sys_tickets s"
  using assms by (simp add: load_orders_def read_pickle_def pickle_load_def write_log_def)

lemma next_ref_graft [simp]: "next_ref (graft h g) = next_ref h + next_ref g"
  by (simp add: graft_def)

lemma copy_at_graft_new: "copy_at g (next_ref h) (graft h g)"
  by (simp add: copy_at_def graft_def)

lemma copy_at_graft_keep:
  "copy_at g k h \<Longrightarrow> k + next_ref g \<le> next_ref h \<Longrightarrow> copy_at g k (graft h g')"
  by (simp add: copy_at_def graft_def)

lemma same_entries_shift_dict:
  assumes "list_all (\<lambda>(key, r). after (r + k) = shift (before r)) d"
  shows "same_entries shift before after d (shift_dict k d)"
  using assms unfolding same_entries_def shift_dict_def
  by (induction d) auto

lemma load_from_saved:
  assumes save: "save_data s = (True, s1)"
    and seen: "files t = files s1" "failing t = failing s1"
  shows "\<exists>t2. load_data t = (True, t2)
     \<and> sys_users t2 = shift_dict (next_ref (objs t)) (sys_users s)
     \<and> sys_admins t2 = shift_dict (next_ref (objs t) + next_ref (objs s)) (sys_admins s)
     \<and> sys_tickets t2 = shift_dict (next_ref (objs t) + 2 * next_ref (objs s)) (sys_tickets s)
     \<and> sys_orders t2 = shift_dict (next_ref (objs t) + 3 * next_ref (objs s)) (sys_orders s)
     \<and> objs t2 = graft (graft (graft (graft (objs t) (objs s)) (objs s)) (objs s)) (objs s)"
proof -
  note f = save_data_True [OF save]
  from load_users_ok [of t] f(1) f(5) seen
  obtain a where a: "load_users t = Inr a"
    "sys_users a = shift_dict (next_ref (objs t)) (sys_users s)"
    "objs a = graft (objs t) (objs s)" "files a = files s1" "failing a = failing s1"
    by (metis pickle_file.select_convs(1) pickle_file.select_convs(2))
  from load_admins_ok [of a] f(2) f(6) a(4,5)
  obtain b where b: "load_admins a = Inr b"
    "sys_admins b = shift_dict (next_ref (objs a)) (sys_admins s)"
    "objs b = graft (objs a) (objs s)" "files b = files s1" "failing b = failing s1"
    "sys_users b = sys_users a"
    by (metis pickle_file.select_convs(1) pickle_file.select_convs(2))
  from load_tickets_ok [of b] f(3) f(7) b(4,5)
  obtain c where c: "load_tickets b = Inr c"
    "sys_tickets c = shift_dict (next_ref (objs b)) (sys_tickets s)"
    "objs c = graft (objs b) (objs s)" "files c = files s1" "failing c = failing s1"
    "sys_users c = sys_users b" "sys_admins c = sys_admins b"
    by (metis pickle_file.select_convs(1) pickle_file.select_convs(2))
  from load_orders_ok [of c] f(4) f(8) c(4,5)
  obtain d where d: "load_orders c = Inr d"
    "sys_orders d = shift_dict (next_ref (objs c)) (sys_orders s)"
    "objs d = graft (objs c) (objs s)"
    "sys_users d = sys_users c" "sys_admins d = sys_admins c" "sys_tickets d = sys_tickets c"
    by (metis pickle_file.select_convs(1) pickle_file.select_convs(2))
  have "load_data t = (True, d)"
    by (simp add: load_data_def a(1) b(1) c(1) d(1))
  moreover have ar: "2 * m = m + m" "3 * m = m + m + m" for m :: nat
    by simp_all
  ultimately show ?thesis
    using a b c d by (simp add: ar add.assoc)
qed

text \<open>
  Claim C9. Let \<^verbatim>\<open>save_data\<close> have returned True in a system whose dictionaries hold
  addresses in use, and let \<^verbatim>\<open>load_data\<close> run in a system that sees the files written:
  the same system, or a new one (\<^verbatim>\<open>load_data\<close> is called by the constructor). Then
  \<^verbatim>\<open>load_data\<close> returns True, and each of the four dictionaries has afterwards the keys
  that were saved, in the same order, every key with an object that has the attribute
  values of the object saved under it. The objects are new ones: the copy of the saved
  heap made for the user file starts at the first free address of the loading system,
  the copies for the admin, ticket and order files follow it, and a reference held by a
  copy leads to the copy, in the same file, of what the original referred to.
\<close>

theorem save_load_roundtrip:
  assumes save: "save_data s = (True, s1)"
    and seen: "files t = files s1" "failing t = failing s1"
    and load: "load_data t = (ok, t2)"
    and alloc: "allocated s"
  shows "ok
     \<and> same_entries (shift_user (next_ref (objs t))) (user_objs (objs s)) (user_objs (objs t2))
          (sys_users s) (sys_users t2)
     \<and> same_entries (shift_user (next_ref (objs t) + next_ref (objs s)))
          (user_objs (objs s)) (user_objs (objs t2)) (sys_admins s) (sys_admins t2)
     \<and> same_entries (shift_ticket (next_ref (objs t) + 2 * next_ref (objs s)))
          (ticket_objs (objs s)) (ticket_objs (objs t2)) (sys_tickets s) (sys_tickets t2)
     \<and> same_entries (shift_order (next_ref (objs t) + 3 * next_ref (objs s)))
          (order_objs (objs s)) (order_objs (objs t2)) (sys_orders s) (sys_orders t2)
     \<and> copy_at (objs s) (next_ref (objs t)) (objs t2)
     \<and> copy_at (objs s) (next_ref (objs t) + next_ref (objs s)) (objs t2)
     \<and> copy_at (objs s) (next_ref (objs t) + 2 * next_ref (objs s)) (objs t2)
     \<and> copy_at (objs s) (next_ref (objs t) + 3 * next_ref (objs s)) (objs t2)"
proof -
  define h where "h = objs s"
  define n where "n = next_ref h"
  define g where "g = objs t"
  define m where "m = next_ref g"
  from load_from_saved [OF save seen] load
  have ok: "ok" and u: "sys_users t2 = shift_dict m (sys_users s)"
    and a: "sys_admins t2 = shift_dict (m + n) (sys_admins s)"
    and t: "sys_tickets t2 = shift_dict (m + 2 * n) (sys_tickets s)"
    and o: "sys_orders t2 = shift_dict (m + 3 * n) (sys_orders s)"
    and h2: "objs t2 = graft (graft (graft (graft g h) h) h) h"
    by (auto simp: h_def n_def g_def m_def)
  have ar: "2 * k = k + k" "3 * k = k + k + k" for k :: nat
    by simp_all
  have k1: "copy_at h m (graft g h)"
    unfolding m_def by (rule copy_at_graft_new)
  have k2: "copy_at h (m + n) (graft (graft g h) h)"
    using copy_at_graft_new [of h "graft g h"] by (simp add: n_def m_def)
  have k3: "copy_at h (m + 2 * n) (graft (graft (graft g h) h) h)"
    using copy_at_graft_new [of h "graft (graft g h) h"] by (simp add: n_def m_def ar add.assoc)
  have c4: "copy_at h (m + 3 * n) (objs t2)"
    unfolding h2 using copy_at_graft_new [of h "graft (graft (graft g h) h) h"]
    by (simp add: n_def m_def ar add.assoc)
  have "copy_at h m (graft (graft g h) h)"
    by (rule copy_at_graft_keep [OF k1]) (simp add: n_def m_def)
  then have "copy_at h m (graft (graft (graft g h) h) h)"
    by (rule copy_at_graft_keep) (simp add: n_def m_def)
  then have c1: "copy_at h m (objs t2)"
    unfolding h2 by (rule copy_at_graft_keep) (simp add: n_def m_def)
  have "copy_at h (m + n) (graft (graft (graft g h) h) h)"
    by (rule copy_at_graft_keep [OF k2]) (simp add: n_def m_def)
  then have c2: "copy_at h (m + n) (objs t2)"
    unfolding h2 by (rule copy_at_graft_keep) (simp add: n_def m_def)
  have c3: "copy_at h (m + 2 * n) (objs t2)"
    unfolding h2 by (rule copy_at_graft_keep [OF k3]) (simp add: n_def m_def)
  from alloc have in_use:
    "list_all (\<lambda>(key, r). r < n) (sys_users s)" "list_all (\<lambda>(key, r). r < n) (sys_admins s)"
    "list_all (\<lambda>(key, r). r < n) (sys_tickets s)" "list_all (\<lambda>(key, r). r < n) (sys_orders s)"
    by (simp_all add: allocated_def n_def h_def)
  have e1: "same_entries (shift_user m) (user_objs h) (user_objs (objs t2)) (sys_users s) (sys_users t2)"
    unfolding u using in_use(1) c1
    by (intro same_entries_shift_dict) (auto simp: list_all_iff copy_at_def n_def)
  have e2: "same_entries (shift_user (m + n)) (user_objs h) (user_objs (objs t2))
              (sys_admins s) (sys_admins t2)"
    unfolding a using in_use(2) c2
    by (intro same_entries_shift_dict) (auto simp: list_all_iff copy_at_def n_def)
  have e3: "same_entries (shift_ticket (m + 2 * n)) (ticket_objs h) (ticket_objs (objs t2))
              (sys_tickets s) (sys_tickets t2)"
    unfolding t using in_use(3) c3
    by (intro same_entries_shift_dict) (auto simp: list_all_iff copy_at_def n_def)
  have e4: "same_entries (shift_order (m + 3 * n)) (order_objs h) (order_objs (objs t2))
              (sys_orders s) (sys_orders t2)"
    unfolding o using in_use(4) c4
    by (intro same_entries_shift_dict) (auto simp: list_all_iff copy_at_def n_def)
  from ok e1 e2 e3 e4 c1 c2 c3 c4 show ?thesis
    unfolding n_def h_def m_def g_def by blast
qed

text \<open>
  The system of the examples, saved. A new process started on its files has the same two
  users, admin, two tickets and order; john_doe and the admin are as they were, the order
  \<^verbatim>\<open>ORD-1\<close> holds the copies of its two tickets, and the season ticket refers to the copy
  of the admin who created it. Loaded in the saving process itself, john_doe is a second
  object with the same attribute values, whose order list leads to the copy of his order.
\<close>

theorem save_load_roundtrip_witness:
  "fst (save_data demo_system)
   \<and> sys_users restarted_demo = [(''john_doe'', 0), (''admin_user'', 1)]
   \<and> sys_admins restarted_demo = [(''admin_user'', 3)]
   \<and> sys_tickets restarted_demo = [(''TKT-001'', 4), (''TKT-002'', 5)]
   \<and> sys_orders restarted_demo = [(''ORD-1'', 6)]
   \<and> user_objs (objs restarted_demo) 0 = demo_user
   \<and> user_objs (objs restarted_demo) 3 = demo_admin
   \<and> ticket_objs (objs restarted_demo) 5 = demo_season\<lparr>created_by := Some 5\<rparr>
   \<and> order_objs (objs restarted_demo) 6
       = demo_order\<lparr>order_user_id := Some ''john_doe'', tickets := [6, 7]\<rparr>
   \<and> ticket_objs (objs restarted_demo) 7 = demo_season\<lparr>created_by := Some 7\<rparr>
   \<and> sys_users (snd (load_data saved_demo)) = [(''john_doe'', 2), (''admin_user'', 3)]
   \<and> user_objs (objs (snd (load_data saved_demo))) 2 = demo_user\<lparr>orders := [2]\<rparr>"
proof -
  define t where "t = \<lparr>sys_name = ''Grand Prix Experience'', sys_version = ''1.0'', database = None,
        sys_users = [], sys_admins = [], sys_tickets = [], sys_orders = [],
        objs = empty_heap, files = files saved_demo, failing = (\<lambda>path. False), log_lines = []\<rparr>"
  have t2: "restarted_demo = snd (load_data t)"
    by (simp add: restarted_demo_def BookingSystem_init_def t_def)
  have w: "fst (save_data demo_system)"
    by (rule save_data_works) (simp_all add: demo_system_def blank_system_def)
  then have sv: "save_data demo_system = (True, saved_demo)"
    by (simp add: prod_eq_iff saved_demo_def)
  have al: "allocated demo_system"
    by (simp add: allocated_def demo_system_def blank_system_def)
  have seen: "files t = files saved_demo" "failing t = failing saved_demo"
    by (simp_all add: t_def saved_demo_def save_data_memory demo_system_def blank_system_def)
  have n: "next_ref (objs demo_system) = 2" "next_ref (objs t) = 0" "next_ref (objs saved_demo) = 2"
    by (simp_all add: demo_system_def blank_system_def t_def empty_heap_def saved_demo_def
        save_data_memory)
  have d: "sys_users demo_system = [(''john_doe'', 0), (''admin_user'', 1)]"
    "sys_admins demo_system = [(''admin_user'', 1)]"
    "sys_tickets demo_system = [(''TKT-001'', 0), (''TKT-002'', 1)]"
    "sys_orders demo_system = [(''ORD-1'', 0)]"
    "user_objs (objs demo_system) 0 = demo_user"
    "user_objs (objs demo_system) (Suc 0) = demo_admin"
    "order_objs (objs demo_system) 0 = demo_order\<lparr>order_user_id := Some ''john_doe''\<rparr>"
    "ticket_objs (objs demo_system) (Suc 0) = demo_season\<lparr>created_by := Some 1\<rparr>"
    by (simp_all add: demo_system_def blank_system_def)
  note r = save_load_roundtrip [OF sv seen prod.collapse [symmetric] al, folded t2, unfolded n]
  from load_from_saved [OF sv seen]
  have k: "sys_users restarted_demo = [(''john_doe'', 0), (''admin_user'', 1)]"
    "sys_admins restarted_demo = [(''admin_user'', 3)]"
    "sys_tickets restarted_demo = [(''TKT-001'', 4), (''TKT-002'', 5)]"
    "sys_orders restarted_demo = [(''ORD-1'', 6)]"
    by (auto simp: t2 n d shift_dict_def)
  from r have e: "user_objs (objs restarted_demo) 0 = demo_user"
    "user_objs (objs restarted_demo) 3 = demo_admin"
    "ticket_objs (objs restarted_demo) 5 = demo_season\<lparr>created_by := Some 5\<rparr>"
    "order_objs (objs restarted_demo) 6
       = demo_order\<lparr>order_user_id := Some ''john_doe'', tickets := [6, 7]\<rparr>"
    by (simp_all add: same_entries_def d k shift_user_def shift_order_def shift_ticket_def
        demo_user_def demo_order_def demo_admin_def)
  from r have "copy_at (objs demo_system) 6 (objs restarted_demo)" by simp
  then have e7: "ticket_objs (objs restarted_demo) 7 = demo_season\<lparr>created_by := Some 7\<rparr>"
    using d(8) by (auto simp: copy_at_def n shift_ticket_def dest: spec [of _ 1])
  note r' = save_load_roundtrip [OF sv refl refl prod.collapse [symmetric] al, unfolded n]
  from load_from_saved [OF sv refl refl]
  have k': "sys_users (snd (load_data saved_demo)) = [(''john_doe'', 2), (''admin_user'', 3)]"
    by (auto simp: n d shift_dict_def)
  from r' have e': "user_objs (objs (snd (load_data saved_demo))) 2 = demo_user\<lparr>orders := [2]\<rparr>"
    by (simp add: same_entries_def d k' shift_user_def demo_user_def)
  from w k e e7 k' e' show ?thesis
    by simp
qed

text \<open>
  A system started on an empty data directory: \<^verbatim>\<open>load_data\<close> finds no admin file and
  creates the default admin, which is then the only user.
\<close>

lemma fresh_system_default_admin:
  "sys_admins (BookingSystem_init nm ver empty_heap Map.empty (\<lambda>path. False)) = [(''admin'', 0)]
   \<and> sys_users (BookingSystem_init nm ver empty_heap Map.empty (\<lambda>path. False)) = [(''admin'', 0)]
   \<and> user_objs (objs (BookingSystem_init nm ver empty_heap Map.empty (\<lambda>path. False))) 0
       = \<lparr>user_id = ''ADM-001'', username = ''admin'', password = ''admin123'',
          email = ''admin@grandprix.com'', phone_number = None, orders = [],
          account = Admin 3 ''System Administration''\<rparr>
   \<and> sys_tickets (BookingSystem_init nm ver empty_heap Map.empty (\<lambda>path. False)) = []
   \<and> sys_orders (BookingSystem_init nm ver empty_heap Map.empty (\<lambda>path. False)) = []"
  by (simp add: BookingSystem_init_def load_data_def load_users_def load_admins_def
      load_tickets_def load_orders_def create_admin_def Admin_init_def User_init_def new_user_def
      save_data_def dump_to_def write_log_def read_pickle_def pickle_load_def shift_dict_def
      graft_def empty_heap_def Let_def)

end
